theory Spec2Isabelle
  imports Complex_Main
begin

section \<open>Data model (app/models.py)\<close>

text \<open>
  The pydantic models. Python floats are only copied from the upstream answer into the
  record, never computed with, so they are modelled as \<open>real\<close>. The field \<open>last\<close> of
  \<open>Ticker\<close> is named \<open>last_price\<close> (\<open>last\<close> is a list function of HOL); the fields of
  \<open>Ohlcv\<close> and \<open>OrderBook\<close> carry a prefix, since several models share field names.
\<close>

record Ticker =
  symbol :: string
  last_price :: real
  bid :: real
  ask :: real
  high :: real
  low :: real
  volume :: real
  timestamp :: int

record Ohlcv =
  o_timestamp :: int
  o_open :: real
  o_high :: real
  o_low :: real
  o_close :: real
  o_volume :: real

record OrderBook =
  ob_bids :: "(real \<times> real) list"
  ob_asks :: "(real \<times> real) list"
  ob_timestamp :: int
  ob_symbol :: string

section \<open>Exceptions, upstream answers, observable events\<close>

text \<open>
  What a call of the service can raise: fastapi's \<open>HTTPException\<close> with its status code
  and detail, tenacity's \<open>RetryError\<close> around the exception of the last attempt, and any
  other exception (by its class name or message).
\<close>

datatype exn =
  HTTPException nat string
| RetryError exn
| OtherError string

text \<open>
  What can be raised inside the \<open>try\<close> of an adapter method, by the \<open>except\<close> clause
  of \<open>get_ticker\<close> that catches it, with the text of \<open>str(e)\<close>: a \<open>ccxt.BadSymbol\<close>,
  a \<open>ccxt.NetworkError\<close>, or any other exception (of the exchange's call, or of building
  the pydantic model from an answer with a missing value).
\<close>

datatype ccxt_error =
  BadSymbol string
| NetworkError string
| OtherExchangeError string

fun message :: "ccxt_error \<Rightarrow> string" where
  "message (BadSymbol m) = m"
| "message (NetworkError m) = m"
| "message (OtherExchangeError m) = m"

text \<open>The dictionary \<open>fetch_ticker\<close> returns, restricted to the keys the adapter reads.\<close>

record ticker_data =
  td_symbol :: string
  td_timestamp :: int
  td_last :: real
  td_bid :: real
  td_ask :: real
  td_high :: real
  td_low :: real
  td_vwap :: real

record order_book_data =
  obd_symbol :: string
  obd_bids :: "(real \<times> real) list"
  obd_asks :: "(real \<times> real) list"
  obd_timestamp :: int

type_synonym ohlcv_row = "int \<times> real \<times> real \<times> real \<times> real \<times> real"

text \<open>
  The secondary provider's answer to one HTTP GET. The JSON body has the shape the service
  consumes: base currency \<open>\<rightharpoonup>\<close> quote currency \<open>\<rightharpoonup>\<close> quote object, a quote object
  being a dictionary from field names to numbers. \<open>Success\<close> carries the value of the
  response's \<open>Date\<close> header, if it has one.
\<close>

type_synonym quote_obj = "string \<rightharpoonup> real"
type_synonym cmc_body = "string \<rightharpoonup> (string \<rightharpoonup> quote_obj)"

datatype cmc_response =
  TransportFailure string
| StatusFailure nat string
| JsonFailure string
| Success "string option" cmc_body

text \<open>
  The calls that leave the process, and the two internal ones the claims count (the
  construction of an adapter and the entry into the fallback routine), in the order in
  which they happen.
\<close>

datatype event =
  Construct string
| FetchTicker string string
| FetchOHLCV string string
| FetchOrderBook string string
| Close string
| Fallback string
| CmcGet string
| Sleep nat

text \<open>
  The state a fetch runs in: the events so far and the cache's store, which maps a key to
  the text the serialiser wrote and the time at which the entry expires.
\<close>

record state =
  trace :: "event list"
  store :: "string \<rightharpoonup> (string \<times> real)"

definition emit :: "event \<Rightarrow> state \<Rightarrow> state" where
  "emit e s = s\<lparr>trace := trace s @ [e]\<rparr>"

definition emitted :: "state \<Rightarrow> state \<Rightarrow> event list" where
  "emitted s s' = drop (length (trace s)) (trace s')"

text \<open>
  Everything outside the repository: ccxt's list of exchanges and the answers of its
  exchange objects, the secondary provider's answers and the setting
  \<open>COINMARKETCAP_KEY\<close>. An upstream answer may change from call to call: it is a
  function of the number of events before the call. \<open>loads\<close> is what the serialiser's
  \<open>json.loads\<close> makes of a stored text: an object with the fields of a Ticker (read here
  as that Ticker), or \<open>None\<close> when the text does not decode or decodes to \<open>null\<close>.
\<close>

record env =
  exchanges :: "string list"
  COINMARKETCAP_KEY :: "string option"
  fetch_ticker :: "nat \<Rightarrow> string \<Rightarrow> string \<Rightarrow> ccxt_error + ticker_data"
  has_fetchOHLCV :: "string \<Rightarrow> bool"
  fetch_ohlcv :: "nat \<Rightarrow> string \<Rightarrow> string \<Rightarrow> string \<Rightarrow> int \<Rightarrow> int \<Rightarrow> ccxt_error + ohlcv_row list"
  fetch_order_book :: "nat \<Rightarrow> string \<Rightarrow> string \<Rightarrow> int \<Rightarrow> ccxt_error + order_book_data"
  cmc_get :: "nat \<Rightarrow> string \<Rightarrow> cmc_response"
  loads :: "string \<Rightarrow> Ticker option"

section \<open>Python primitives\<close>

text \<open>\<open>s.split(c)\<close> for a one-character separator: never empty.\<close>

fun split_on :: "char \<Rightarrow> string \<Rightarrow> string list" where
  "split_on c [] = [[]]"
| "split_on c (x # xs) =
     (if x = c then [] # split_on c xs
      else (case split_on c xs of [] \<Rightarrow> [[x]] | w # ws \<Rightarrow> (x # w) # ws))"

text \<open>Truthiness of an optional string: \<open>None\<close> and the empty string are false.\<close>

fun truthy :: "string option \<Rightarrow> bool" where
  "truthy None = False"
| "truthy (Some k) = (k \<noteq> [])"

text \<open>
  \<open>int(s)\<close> on a text whose characters are code points below 256 (what a \<open>char\<close>
  holds, and what a header decoded as Latin-1 holds): surrounding whitespace is dropped, a
  sign may come first, then decimal digits, with single underscores allowed between
  digits. Python's whitespace below 256 is 0x09 to 0x0D, 0x1C to 0x20, 0x85 and 0xA0; its
  only decimal digits below 256 are \<open>0\<close> to \<open>9\<close>. \<open>None\<close> stands for \<open>ValueError\<close>.
\<close>

definition is_space :: "char \<Rightarrow> bool" where
  "is_space c =
     (c \<in> set [CHR 0x20, CHR 0x09, CHR 0x0A, CHR 0x0B, CHR 0x0C, CHR 0x0D,
                CHR 0x1C, CHR 0x1D, CHR 0x1E, CHR 0x1F, CHR 0x85, CHR 0xA0])"

definition strip :: "string \<Rightarrow> string" where
  "strip s = rev (dropWhile is_space (rev (dropWhile is_space s)))"

definition is_digit :: "char \<Rightarrow> bool" where
  "is_digit c = (c \<in> set ''0123456789'')"

definition digit_value :: "char \<Rightarrow> nat" where
  "digit_value c = of_char c - 48"

fun digits :: "nat \<Rightarrow> bool \<Rightarrow> string \<Rightarrow> nat option" where
  "digits acc after_digit [] = (if after_digit then Some acc else None)"
| "digits acc after_digit (c # cs) =
     (if is_digit c then digits (10 * acc + digit_value c) True cs
      else if c = CHR ''_'' \<and> after_digit then digits acc False cs
      else None)"

definition py_int :: "string \<Rightarrow> int option" where
  "py_int s =
     (case strip s of
        [] \<Rightarrow> None
      | c # cs \<Rightarrow>
          if c = CHR ''-'' then map_option (\<lambda>n. - int n) (digits 0 False cs)
          else if c = CHR ''+'' then map_option int (digits 0 False cs)
          else map_option int (digits 0 False (c # cs)))"

text \<open>A name in single quotes, as the f-strings of the source print it.\<close>

definition squote :: "string \<Rightarrow> string" where
  "squote s = CHR 0x27 # s @ [CHR 0x27]"

section \<open>The provider adapter (app/adapters/ccxt_adapter.py)\<close>

text \<open>
  \<open>CCXTAdapter.__init__\<close>: an identifier that is not in \<open>ccxt.exchanges\<close> is refused
  with 404, and no exchange object is created.
\<close>

definition CCXTAdapter_init :: "env \<Rightarrow> string \<Rightarrow> state \<Rightarrow> (exn + unit) \<times> state" where
  "CCXTAdapter_init env exchange_id s =
     (if exchange_id \<in> set (exchanges env) then (Inr (), emit (Construct exchange_id) s)
      else (Inl (HTTPException 404 (''Exchange '' @ squote exchange_id @ '' not found.'')), s))"

definition CCXTAdapter_close :: "string \<Rightarrow> state \<Rightarrow> state" where
  "CCXTAdapter_close exchange_id s = emit (Close exchange_id) s"

definition CCXTAdapter_get_ticker ::
  "env \<Rightarrow> string \<Rightarrow> string \<Rightarrow> state \<Rightarrow> (exn + Ticker) \<times> state" where
  "CCXTAdapter_get_ticker env exchange_id symb s =
     (case fetch_ticker env (length (trace s)) exchange_id symb of
        Inr td \<Rightarrow>
          (Inr \<lparr>symbol = td_symbol td, last_price = td_last td, bid = td_bid td,
                ask = td_ask td, high = td_high td, low = td_low td,
                volume = td_vwap td, timestamp = td_timestamp td\<rparr>,
           emit (FetchTicker exchange_id symb) s)
      | Inl (BadSymbol m) \<Rightarrow>
          (Inl (HTTPException 404 (''Symbol '' @ squote symb @ '' not found on '' @ exchange_id)),
           emit (FetchTicker exchange_id symb) s)
      | Inl (NetworkError m) \<Rightarrow>
          (Inl (HTTPException 503 (''Network error connecting to '' @ exchange_id)),
           emit (FetchTicker exchange_id symb) s)
      | Inl (OtherExchangeError m) \<Rightarrow>
          (Inl (HTTPException 500 (''An unexpected error occurred: '' @ m)),
           emit (FetchTicker exchange_id symb) s))"

fun to_ohlcv :: "ohlcv_row \<Rightarrow> Ohlcv" where
  "to_ohlcv (t, opn, h, l, c, v) =
     \<lparr>o_timestamp = t, o_open = opn, o_high = h, o_low = l, o_close = c, o_volume = v\<rparr>"

definition CCXTAdapter_get_historical_data ::
  "env \<Rightarrow> string \<Rightarrow> string \<Rightarrow> string \<Rightarrow> int \<Rightarrow> int \<Rightarrow> state \<Rightarrow> (exn + Ohlcv list) \<times> state" where
  "CCXTAdapter_get_historical_data env exchange_id symb timeframe since limit s =
     (if \<not> has_fetchOHLCV env exchange_id then
        (Inl (HTTPException 501
           (''Exchange '' @ squote exchange_id @ '' does not support fetching OHLCV data.'')), s)
      else
        (case fetch_ohlcv env (length (trace s)) exchange_id symb timeframe since limit of
           Inr rows \<Rightarrow> (Inr (map to_ohlcv rows), emit (FetchOHLCV exchange_id symb) s)
         | Inl e \<Rightarrow>
             (Inl (HTTPException 500 (''Failed to fetch historical data: '' @ message e)),
              emit (FetchOHLCV exchange_id symb) s)))"

definition CCXTAdapter_get_order_book ::
  "env \<Rightarrow> string \<Rightarrow> string \<Rightarrow> int \<Rightarrow> state \<Rightarrow> (exn + OrderBook) \<times> state" where
  "CCXTAdapter_get_order_book env exchange_id symb limit s =
     (case fetch_order_book env (length (trace s)) exchange_id symb limit of
        Inr d \<Rightarrow>
          (Inr \<lparr>ob_bids = obd_bids d, ob_asks = obd_asks d,
                ob_timestamp = obd_timestamp d, ob_symbol = obd_symbol d\<rparr>,
           emit (FetchOrderBook exchange_id symb) s)
      | Inl e \<Rightarrow>
          (Inl (HTTPException 500 (''Failed to fetch order book: '' @ message e)),
           emit (FetchOrderBook exchange_id symb) s))"

section \<open>The cache and the retry wrapper\<close>

text \<open>
  The cache of the repository (app/services/cache.py) is built with
  \<open>serializer=JsonSerializer()\<close>, whose \<open>dumps\<close> is \<open>json.dumps\<close>. What
  \<open>get_ticker\<close> hands it is a pydantic \<open>Ticker\<close> object; \<open>json.dumps\<close> encodes
  dictionaries, lists, strings, numbers, booleans and \<open>None\<close> and raises \<open>TypeError\<close>
  for every other object, so for every Ticker.
\<close>

definition JsonSerializer_dumps :: "Ticker \<Rightarrow> exn + string" where
  "JsonSerializer_dumps t = Inl (OtherError ''TypeError'')"

text \<open>
  The decorator \<open>cache.cached(ttl, key_builder)\<close> belongs to the cache library, not to the
  repository; it is the spec's \<open>getOrCompute\<close> with the library's handling of the
  serialiser. The key is looked up: an entry that has not expired and decodes to a value
  is returned without calling the function. Otherwise the function is called; an exception
  propagates and nothing is stored; a result is written through \<open>dumps\<close> under the key
  with expiry now + ttl, an exception of that write being logged and dropped, and the
  result is returned either way.
\<close>

definition cache_miss ::
  "real \<Rightarrow> string \<Rightarrow> real \<Rightarrow> (state \<Rightarrow> (exn + Ticker) \<times> state) \<Rightarrow> state
     \<Rightarrow> (exn + Ticker) \<times> state" where
  "cache_miss ttl key now f s =
     (case f s of
        (Inl e, s') \<Rightarrow> (Inl e, s')
      | (Inr t, s') \<Rightarrow>
          (case JsonSerializer_dumps t of
             Inl err \<Rightarrow> (Inr t, s')
           | Inr v \<Rightarrow> (Inr t, s'\<lparr>store := (store s')(key \<mapsto> (v, now + ttl))\<rparr>)))"

definition cached ::
  "real \<Rightarrow> string \<Rightarrow> env \<Rightarrow> real \<Rightarrow> (state \<Rightarrow> (exn + Ticker) \<times> state) \<Rightarrow> state
     \<Rightarrow> (exn + Ticker) \<times> state" where
  "cached ttl key env now f s =
     (case store s key of
        None \<Rightarrow> cache_miss ttl key now f s
      | Some (v, expiry) \<Rightarrow>
          if now < expiry then
            (case loads env v of
               None \<Rightarrow> cache_miss ttl key now f s
             | Some t \<Rightarrow> (Inr t, s))
          else cache_miss ttl key now f s)"

text \<open>
  tenacity's \<open>wait_exponential(multiplier=1, min=2, max=10)\<close> after attempt \<open>n\<close>, and
  \<open>retry(wait=..., stop=stop_after_attempt(stop))\<close> as the source calls it. The source
  passes neither \<open>retry\<close> nor \<open>reraise\<close>, so the library's defaults apply: an attempt
  that raises any exception is followed by the wait and another attempt, and when the stop
  condition holds after a failed attempt the library raises its \<open>RetryError\<close> around that
  attempt's exception (the exception itself is re-raised only under \<open>reraise=True\<close>).
  \<open>n\<close> is the number of the attempt, from 1.
\<close>

definition wait_exponential :: "nat \<Rightarrow> nat" where
  "wait_exponential n = max 2 (min 10 (1 * 2 ^ (n - 1)))"

function retry ::
  "nat \<Rightarrow> nat \<Rightarrow> (state \<Rightarrow> (exn + 'a) \<times> state) \<Rightarrow> state \<Rightarrow> (exn + 'a) \<times> state" where
  "retry stop n f s =
     (case f s of
        (Inr v, s') \<Rightarrow> (Inr v, s')
      | (Inl e, s') \<Rightarrow>
          if stop \<le> n then (Inl (RetryError e), s')
          else retry stop (Suc n) f (emit (Sleep (wait_exponential n)) s'))"
  by pat_completeness auto
termination
  by (relation "measure (\<lambda>(stop, n, f, s). stop - n)") auto

declare retry.simps [simp del]

section \<open>The fetch service (app/services/fetcher.py)\<close>

text \<open>
  One execution of the body of \<open>_fetch_from_coinmarketcap\<close>. The base currency is the
  first part of the symbol; the answer is re-shaped inside the \<open>try\<close>, whose handlers
  turn an HTTP status error into an \<open>HTTPException\<close> of the same status and a
  \<open>KeyError\<close> or \<open>IndexError\<close> into 404. The arguments of \<open>Ticker(...)\<close> are evaluated
  in the order written: the timestamp (an \<open>int(...)\<close> of the \<open>Date\<close> header, or of
  \<open>"0"\<close> without one) before the price. A transport failure, undecodable JSON and the
  \<open>ValueError\<close> of \<open>int\<close> meet no handler.
\<close>

definition not_parsed :: "string \<Rightarrow> exn" where
  "not_parsed symb =
     HTTPException 404 (''Could not parse CoinMarketCap response for '' @ squote symb @ ''.'')"

definition get_default :: "quote_obj \<Rightarrow> string \<Rightarrow> real \<Rightarrow> real" where
  "get_default q k d = (case q k of None \<Rightarrow> d | Some v \<Rightarrow> v)"

definition reshape :: "string \<Rightarrow> string option \<Rightarrow> cmc_body \<Rightarrow> exn + Ticker" where
  "reshape symb date body =
     (case split_on CHR ''/'' symb of
        [] \<Rightarrow> Inl (not_parsed symb)
      | base # rest \<Rightarrow>
          (case body base of
             None \<Rightarrow> Inl (not_parsed symb)
           | Some quotes \<Rightarrow>
               (case rest of
                  [] \<Rightarrow> Inl (not_parsed symb)
                | qc # _ \<Rightarrow>
                    (case quotes qc of
                       None \<Rightarrow> Inl (not_parsed symb)
                     | Some q \<Rightarrow>
                         (case py_int (case date of None \<Rightarrow> ''0'' | Some d \<Rightarrow> d) of
                            None \<Rightarrow> Inl (OtherError ''ValueError'')
                          | Some ts \<Rightarrow>
                              (case q ''price'' of
                                 None \<Rightarrow> Inl (not_parsed symb)
                               | Some price \<Rightarrow>
                                   (case q ''volume_24h'' of
                                      None \<Rightarrow> Inl (not_parsed symb)
                                    | Some vol \<Rightarrow>
                                        Inr \<lparr>symbol = symb, last_price = price,
                                             bid = get_default q ''bid'' 0,
                                             ask = get_default q ''ask'' 0,
                                             high = get_default q ''high_24h'' 0,
                                             low = get_default q ''low_24h'' 0,
                                             volume = vol, timestamp = ts\<rparr>)))))))"

definition fetch_from_coinmarketcap_attempt ::
  "env \<Rightarrow> string \<Rightarrow> state \<Rightarrow> (exn + Ticker) \<times> state" where
  "fetch_from_coinmarketcap_attempt env symb s =
     (if \<not> truthy (COINMARKETCAP_KEY env) then
        (Inl (HTTPException 501 ''CoinMarketCap API key not configured.''), s)
      else
        (case split_on CHR ''/'' symb of
           [] \<Rightarrow> (Inl (OtherError ''IndexError''), s)
         | base # _ \<Rightarrow>
             (case cmc_get env (length (trace s)) base of
                TransportFailure m \<Rightarrow> (Inl (OtherError m), emit (CmcGet base) s)
              | StatusFailure code txt \<Rightarrow>
                  (Inl (HTTPException code (''Error from CoinMarketCap: '' @ txt)),
                   emit (CmcGet base) s)
              | JsonFailure m \<Rightarrow> (Inl (OtherError m), emit (CmcGet base) s)
              | Success date body \<Rightarrow> (reshape symb date body, emit (CmcGet base) s))))"

text \<open>
  \<open>_fetch_from_coinmarketcap\<close> as decorated: the body under
  \<open>retry(wait=wait_exponential(...), stop=stop_after_attempt(3))\<close>, attempts counted
  from 1.
\<close>

definition fetch_from_coinmarketcap ::
  "env \<Rightarrow> string \<Rightarrow> state \<Rightarrow> (exn + Ticker) \<times> state" where
  "fetch_from_coinmarketcap env symb s =
     retry 3 1 (fetch_from_coinmarketcap_attempt env symb) (emit (Fallback symb) s)"

text \<open>
  The body of \<open>DataFetcher.get_ticker\<close>. The adapter is constructed before the \<open>try\<close>,
  so its 404 for an unknown exchange meets neither the handler nor the \<open>finally\<close>.
  Inside, \<open>except HTTPException\<close> falls back when the status is 404 and the key is
  truthy and re-raises otherwise; \<open>finally\<close> closes the adapter on every path.
\<close>

definition get_ticker_uncached ::
  "env \<Rightarrow> string \<Rightarrow> string \<Rightarrow> state \<Rightarrow> (exn + Ticker) \<times> state" where
  "get_ticker_uncached env exchange symb s =
     (case CCXTAdapter_init env exchange s of
        (Inl e, s0) \<Rightarrow> (Inl e, s0)
      | (Inr _, s0) \<Rightarrow>
          (case CCXTAdapter_get_ticker env exchange symb s0 of
             (Inr t, s1) \<Rightarrow> (Inr t, CCXTAdapter_close exchange s1)
           | (Inl (HTTPException code d), s1) \<Rightarrow>
               if code = 404 \<and> truthy (COINMARKETCAP_KEY env) then
                 (case fetch_from_coinmarketcap env symb s1 of
                    (r, s2) \<Rightarrow> (r, CCXTAdapter_close exchange s2))
               else (Inl (HTTPException code d), CCXTAdapter_close exchange s1)
           | (Inl e, s1) \<Rightarrow> (Inl e, CCXTAdapter_close exchange s1)))"

text \<open>The key builder of the decorator, and \<open>DataFetcher.get_ticker\<close> as decorated (ttl 10).\<close>

definition key_builder :: "string \<Rightarrow> string \<Rightarrow> string" where
  "key_builder exchange symb = ''ticker:'' @ exchange @ '':'' @ symb"

definition DataFetcher_get_ticker ::
  "env \<Rightarrow> real \<Rightarrow> string \<Rightarrow> string \<Rightarrow> state \<Rightarrow> (exn + Ticker) \<times> state" where
  "DataFetcher_get_ticker env now exchange symb s =
     cached 10 (key_builder exchange symb) env now (get_ticker_uncached env exchange symb) s"




definition DataFetcher_get_historical_data ::
  "env \<Rightarrow> string \<Rightarrow> string \<Rightarrow> string \<Rightarrow> int \<Rightarrow> int \<Rightarrow> state \<Rightarrow> (exn + Ohlcv list) \<times> state" where
  "DataFetcher_get_historical_data env exchange symb timeframe since limit s =
     (case CCXTAdapter_init env exchange s of
        (Inl e, s0) \<Rightarrow> (Inl e, s0)
      | (Inr _, s0) \<Rightarrow>
          (case CCXTAdapter_get_historical_data env exchange symb timeframe since limit s0 of
             (r, s1) \<Rightarrow> (r, CCXTAdapter_close exchange s1)))"

definition DataFetcher_get_order_book ::
  "env \<Rightarrow> string \<Rightarrow> string \<Rightarrow> int \<Rightarrow> state \<Rightarrow> (exn + OrderBook) \<times> state" where
  "DataFetcher_get_order_book env exchange symb limit s =
     (case CCXTAdapter_init env exchange s of
        (Inl e, s0) \<Rightarrow> (Inl e, s0)
      | (Inr _, s0) \<Rightarrow>
          (case CCXTAdapter_get_order_book env exchange symb limit s0 of
             (r, s1) \<Rightarrow> (r, CCXTAdapter_close exchange s1)))"

section \<open>Counting events\<close>

fun is_primary_call :: "event \<Rightarrow> bool" where
  "is_primary_call (FetchTicker ex symb) = True"
| "is_primary_call e = False"

fun is_fallback :: "event \<Rightarrow> bool" where
  "is_fallback (Fallback symb) = True"
| "is_fallback e = False"

fun is_cmc_get :: "event \<Rightarrow> bool" where
  "is_cmc_get (CmcGet base) = True"
| "is_cmc_get e = False"

fun is_secondary :: "event \<Rightarrow> bool" where
  "is_secondary (CmcGet base) = True"
| "is_secondary (Sleep n) = True"
| "is_secondary e = False"

fun is_lifecycle :: "event \<Rightarrow> bool" where
  "is_lifecycle (Construct ex) = True"
| "is_lifecycle (Close ex) = True"
| "is_lifecycle e = False"

text \<open>
  The events of one call construct and close one adapter: either there are none, or they
  start with the construction of the adapter, end with its close, and neither constructs
  nor closes an adapter in between.
\<close>

definition released_once :: "string \<Rightarrow> event list \<Rightarrow> bool" where
  "released_once ex evs =
     (case evs of
        [] \<Rightarrow> True
      | e # rest \<Rightarrow>
          e = Construct ex \<and> rest \<noteq> [] \<and> last rest = Close ex
          \<and> filter is_lifecycle (butlast rest) = [])"

text \<open>Whether the store holds an entry for a key that has not expired and decodes.\<close>

definition cache_hit :: "env \<Rightarrow> string \<Rightarrow> real \<Rightarrow> state \<Rightarrow> bool" where
  "cache_hit env key now s =
     (case store s key of
        None \<Rightarrow> False
      | Some (v, expiry) \<Rightarrow> now < expiry \<and> loads env v \<noteq> None)"

definition primary_calls :: "event list \<Rightarrow> nat" where
  "primary_calls evs = length (filter is_primary_call evs)"

definition fallback_calls :: "event list \<Rightarrow> nat" where
  "fallback_calls evs = length (filter is_fallback evs)"

definition cmc_attempts :: "event list \<Rightarrow> nat" where
  "cmc_attempts evs = length (filter is_cmc_get evs)"

section \<open>Concrete environments\<close>

definition init_state :: state where
  "init_state = \<lparr>trace = [], store = Map.empty\<rparr>"

definition demo_ticker_data :: ticker_data where
  "demo_ticker_data =
     \<lparr>td_symbol = ''BTC/USDT'', td_timestamp = 1672531200000, td_last = 50000,
      td_bid = 49999, td_ask = 50001, td_high = 51000, td_low = 49000, td_vwap = 50500\<rparr>"

definition xrp_body :: cmc_body where
  "xrp_body = [''XRP'' \<mapsto> [''USD'' \<mapsto> [''price'' \<mapsto> 0.52, ''volume_24h'' \<mapsto> 1000000]]]"

text \<open>
  The exchange \<open>demo-exchange\<close> knows \<open>BTC/USDT\<close>, cannot be reached for \<open>DOWN/USD\<close>
  and reports every other symbol as unknown; the secondary provider answers with
  \<open>xrp_body\<close> and no \<open>Date\<close> header; no stored text decodes.
\<close>

definition demo_env :: env where
  "demo_env =
     \<lparr>exchanges = [''demo-exchange''],
      COINMARKETCAP_KEY = Some ''test_key'',
      fetch_ticker = (\<lambda>i ex symb.
         if symb = ''BTC/USDT'' then Inr demo_ticker_data
         else if symb = ''DOWN/USD'' then Inl (NetworkError ''timed out'')
         else Inl (BadSymbol ''no such market'')),
      has_fetchOHLCV = (\<lambda>ex. True),
      fetch_ohlcv = (\<lambda>i ex symb tf since limit.
         if symb = ''BTC/USDT'' then Inr [(since, 1, 2, 0.5, 1.5, 10)]
         else Inl (BadSymbol ''no such market'')),
      fetch_order_book = (\<lambda>i ex symb limit.
         if symb = ''BTC/USDT'' then
           Inr \<lparr>obd_symbol = symb, obd_bids = [(1, 2)], obd_asks = [(3, 4)], obd_timestamp = 0\<rparr>
         else Inl (NetworkError ''timed out'')),
      cmc_get = (\<lambda>i base. Success None xrp_body),
      loads = (\<lambda>v. None)\<rparr>"

text \<open>The same without a key, with a secondary provider that answers 429 to every
  request, and with one whose answers carry an HTTP date.\<close>

definition no_key_env :: env where
  "no_key_env = demo_env\<lparr>COINMARKETCAP_KEY := None\<rparr>"

definition limited_env :: env where
  "limited_env = demo_env\<lparr>cmc_get := (\<lambda>i base. StatusFailure 429 ''rate limited'')\<rparr>"

definition dated_env :: env where
  "dated_env =
     demo_env\<lparr>cmc_get := (\<lambda>i base. Success (Some ''Tue, 03 Nov 2026 14:10:00 GMT'') xrp_body)\<rparr>"

definition no_ohlcv_env :: env where
  "no_ohlcv_env = demo_env\<lparr>has_fetchOHLCV := (\<lambda>ex. False)\<rparr>"


section \<open>Effects of the operations\<close>

lemma trace_emit [simp]: "trace (emit e s) = trace s @ [e]"
  by (simp add: emit_def)

lemma store_emit [simp]: "store (emit e s) = store s"
  by (simp add: emit_def)

lemma attempt_effect:
  "\<exists>evs. trace (snd (fetch_from_coinmarketcap_attempt env symb s)) = trace s @ evs
     \<and> list_all is_secondary evs
     \<and> store (snd (fetch_from_coinmarketcap_attempt env symb s)) = store s"
  by (auto simp: fetch_from_coinmarketcap_attempt_def split: list.splits cmc_response.splits)

lemma retry_effect:
  assumes "\<And>s. \<exists>evs. trace (snd (f s)) = trace s @ evs \<and> list_all is_secondary evs
             \<and> store (snd (f s)) = store s"
  shows "\<exists>evs. trace (snd (retry stop n f s)) = trace s @ evs \<and> list_all is_secondary evs
           \<and> store (snd (retry stop n f s)) = store s"
  using assms
proof (induction stop n f s rule: retry.induct)
  case (1 stop n f s)
  obtain r s' where fs: "f s = (r, s')"
    by (cases "f s")
  from "1.prems" [of s] fs obtain evs where
    evs: "trace s' = trace s @ evs" "list_all is_secondary evs" "store s' = store s"
    by auto
  show ?case
  proof (cases r)
    case (Inr v)
    with fs evs show ?thesis
      by (subst (1 2) retry.simps) simp
  next
    case (Inl e)
    show ?thesis
    proof (cases "stop \<le> n")
      case True
      with Inl fs evs show ?thesis
        by (subst (1 2) retry.simps) simp
    next
      case False
      from "1.IH" [OF fs [symmetric] Inl False "1.prems"] obtain evs' where
        evs': "trace (snd (retry stop (Suc n) f (emit (Sleep (wait_exponential n)) s')))
                 = trace (emit (Sleep (wait_exponential n)) s') @ evs'"
          "list_all is_secondary evs'"
          "store (snd (retry stop (Suc n) f (emit (Sleep (wait_exponential n)) s')))
             = store (emit (Sleep (wait_exponential n)) s')"
        by blast
      have "retry stop n f s = retry stop (Suc n) f (emit (Sleep (wait_exponential n)) s')"
        using fs Inl False by (subst retry.simps) simp
      with evs evs' show ?thesis
        by simp
    qed
  qed
qed

lemma secondary_not_lifecycle: "list_all is_secondary evs \<Longrightarrow> filter is_lifecycle evs = []"
  by (induction evs) (auto elim: is_secondary.elims)

lemma secondary_not_primary: "list_all is_secondary evs \<Longrightarrow> filter is_primary_call evs = []"
  by (induction evs) (auto elim: is_secondary.elims)

lemma secondary_not_fallback: "list_all is_secondary evs \<Longrightarrow> filter is_fallback evs = []"
  by (induction evs) (auto elim: is_secondary.elims)

lemma fallback_effect:
  "\<exists>evs. trace (snd (fetch_from_coinmarketcap env symb s)) = trace s @ Fallback symb # evs
     \<and> list_all is_secondary evs
     \<and> store (snd (fetch_from_coinmarketcap env symb s)) = store s"
proof -
  from retry_effect [of "fetch_from_coinmarketcap_attempt env symb" 3 1 "emit (Fallback symb) s",
      OF attempt_effect]
  show ?thesis
    by (auto simp: fetch_from_coinmarketcap_def)
qed

lemma adapter_get_ticker_state [simp]:
  "snd (CCXTAdapter_get_ticker env ex symb s) = emit (FetchTicker ex symb) s"
  by (simp add: CCXTAdapter_get_ticker_def split: sum.splits ccxt_error.splits)

lemma adapter_get_ticker_raises:
  "fst (CCXTAdapter_get_ticker env ex symb s) = Inl e \<Longrightarrow> \<exists>code d. e = HTTPException code d"
  by (auto simp: CCXTAdapter_get_ticker_def split: sum.splits ccxt_error.splits)

lemma get_ticker_unknown_exchange:
  "ex \<notin> set (exchanges env) \<Longrightarrow>
     get_ticker_uncached env ex symb s
       = (Inl (HTTPException 404 (''Exchange '' @ squote ex @ '' not found.'')), s)"
  by (simp add: get_ticker_uncached_def CCXTAdapter_init_def)

lemma get_ticker_uncached_effect:
  assumes "ex \<in> set (exchanges env)"
  shows "\<exists>mid. trace (snd (get_ticker_uncached env ex symb s))
             = trace s @ Construct ex # FetchTicker ex symb # mid @ [Close ex]
           \<and> (mid = [] \<or> (\<exists>evs. mid = Fallback symb # evs \<and> list_all is_secondary evs))
           \<and> store (snd (get_ticker_uncached env ex symb s)) = store s"
proof -
  let ?s0 = "emit (Construct ex) s"
  obtain r where r: "CCXTAdapter_get_ticker env ex symb ?s0 = (r, emit (FetchTicker ex symb) ?s0)"
    using adapter_get_ticker_state [of env ex symb ?s0]
    by (cases "CCXTAdapter_get_ticker env ex symb ?s0") simp
  let ?s1 = "emit (FetchTicker ex symb) ?s0"
  from fallback_effect [of env symb ?s1] obtain evs where
    evs: "trace (snd (fetch_from_coinmarketcap env symb ?s1)) = trace ?s1 @ Fallback symb # evs"
      "list_all is_secondary evs"
      "store (snd (fetch_from_coinmarketcap env symb ?s1)) = store ?s1"
    by blast
  show ?thesis
  proof (cases r)
    case (Inr t)
    with assms r show ?thesis
      by (simp add: get_ticker_uncached_def CCXTAdapter_init_def CCXTAdapter_close_def)
  next
    case (Inl e)
    with r adapter_get_ticker_raises [of env ex symb ?s0 e] obtain code d where
      e: "e = HTTPException code d"
      by auto
    show ?thesis
    proof (cases "code = 404 \<and> truthy (COINMARKETCAP_KEY env)")
      case True
      with assms r Inl e evs show ?thesis
        by (auto simp: get_ticker_uncached_def CCXTAdapter_init_def CCXTAdapter_close_def
            split: prod.splits)
    next
      case False
      with assms r Inl e show ?thesis
        by (auto simp: get_ticker_uncached_def CCXTAdapter_init_def CCXTAdapter_close_def)
    qed
  qed
qed

lemma emitted_append [simp]: "trace s' = trace s @ evs \<Longrightarrow> emitted s s' = evs"
  by (simp add: emitted_def)

lemma emitted_same [simp]: "emitted s s = []"
  by (simp add: emitted_def)

lemma get_ticker_uncached_released:
  "released_once ex (emitted s (snd (get_ticker_uncached env ex symb s)))"
proof (cases "ex \<in> set (exchanges env)")
  case True
  from get_ticker_uncached_effect [OF True, of symb s] obtain mid where
    mid: "trace (snd (get_ticker_uncached env ex symb s))
            = trace s @ Construct ex # FetchTicker ex symb # mid @ [Close ex]"
      "mid = [] \<or> (\<exists>evs. mid = Fallback symb # evs \<and> list_all is_secondary evs)"
    by blast
  from mid(2) have "filter is_lifecycle mid = []"
    by (auto simp: secondary_not_lifecycle)
  moreover have "emitted s (snd (get_ticker_uncached env ex symb s))
      = Construct ex # (FetchTicker ex symb # mid) @ [Close ex]"
    using mid(1) by simp
  ultimately show ?thesis
    unfolding released_once_def by (simp del: append_Cons add: butlast_append)
next
  case False
  then show ?thesis
    by (simp add: get_ticker_unknown_exchange released_once_def)
qed

lemma cached_trace:
  "trace (snd (cached ttl key env now f s)) = trace s
   \<or> trace (snd (cached ttl key env now f s)) = trace (snd (f s))"
  by (auto simp: cached_def cache_miss_def JsonSerializer_dumps_def
      split: option.splits prod.splits sum.splits)

lemma get_ticker_emitted:
  "emitted s (snd (DataFetcher_get_ticker env now ex symb s)) = []
   \<or> emitted s (snd (DataFetcher_get_ticker env now ex symb s))
       = emitted s (snd (get_ticker_uncached env ex symb s))"
  using cached_trace [of 10 "key_builder ex symb" env now "get_ticker_uncached env ex symb" s]
  by (auto simp: DataFetcher_get_ticker_def emitted_def)

lemma historical_emitted:
  "emitted s (snd (DataFetcher_get_historical_data env ex symb tf since limit s))
     = (if ex \<in> set (exchanges env) then
          (if has_fetchOHLCV env ex then [Construct ex, FetchOHLCV ex symb, Close ex]
           else [Construct ex, Close ex])
        else [])"
  by (simp add: DataFetcher_get_historical_data_def CCXTAdapter_init_def
      CCXTAdapter_get_historical_data_def CCXTAdapter_close_def emitted_def
      split: sum.splits)

lemma order_book_emitted:
  "emitted s (snd (DataFetcher_get_order_book env ex symb limit s))
     = (if ex \<in> set (exchanges env) then [Construct ex, FetchOrderBook ex symb, Close ex]
        else [])"
  by (simp add: DataFetcher_get_order_book_def CCXTAdapter_init_def
      CCXTAdapter_get_order_book_def CCXTAdapter_close_def emitted_def
      split: sum.splits)

lemma get_ticker_uncached_emitted_empty:
  "(emitted s (snd (get_ticker_uncached env ex symb s)) = []) = (ex \<notin> set (exchanges env))"
proof (cases "ex \<in> set (exchanges env)")
  case True
  from get_ticker_uncached_effect [OF True, of symb s] show ?thesis
    using True by auto
next
  case False
  then show ?thesis
    by (simp add: get_ticker_unknown_exchange)
qed

lemma cache_miss_stores_nothing:
  "cache_miss ttl key now f s = f s"
  by (simp add: cache_miss_def JsonSerializer_dumps_def split: prod.splits sum.splits)

lemma get_ticker_miss:
  assumes "\<not> cache_hit env (key_builder ex symb) now s"
  shows "DataFetcher_get_ticker env now ex symb s = get_ticker_uncached env ex symb s"
  using assms
  by (auto simp: DataFetcher_get_ticker_def cached_def cache_miss_stores_nothing cache_hit_def
      split: option.splits)

lemma uncached_404_with_key:
  assumes "ex \<in> set (exchanges env)"
    and "CCXTAdapter_get_ticker env ex symb (emit (Construct ex) s) = (Inl (HTTPException 404 d), s1)"
    and "truthy (COINMARKETCAP_KEY env)"
  shows "fst (get_ticker_uncached env ex symb s) = fst (fetch_from_coinmarketcap env symb s1)"
    and "fallback_calls (emitted s (snd (get_ticker_uncached env ex symb s))) = 1"
proof -
  from assms(2) adapter_get_ticker_state [of env ex symb "emit (Construct ex) s"]
  have s1: "s1 = emit (FetchTicker ex symb) (emit (Construct ex) s)"
    by simp
  from fallback_effect [of env symb s1] obtain evs where
    evs: "trace (snd (fetch_from_coinmarketcap env symb s1)) = trace s1 @ Fallback symb # evs"
      "list_all is_secondary evs"
    by blast
  show "fst (get_ticker_uncached env ex symb s) = fst (fetch_from_coinmarketcap env symb s1)"
    using assms by (simp add: get_ticker_uncached_def CCXTAdapter_init_def split: prod.splits)
  have "snd (get_ticker_uncached env ex symb s)
      = CCXTAdapter_close ex (snd (fetch_from_coinmarketcap env symb s1))"
    using assms by (simp add: get_ticker_uncached_def CCXTAdapter_init_def split: prod.splits)
  then have "emitted s (snd (get_ticker_uncached env ex symb s))
      = Construct ex # FetchTicker ex symb # Fallback symb # evs @ [Close ex]"
    using evs(1) s1 by (simp add: CCXTAdapter_close_def)
  then show "fallback_calls (emitted s (snd (get_ticker_uncached env ex symb s))) = 1"
    using secondary_not_fallback [OF evs(2)] by (simp add: fallback_calls_def)
qed

lemma uncached_no_fallback:
  assumes "ex \<in> set (exchanges env)"
    and "CCXTAdapter_get_ticker env ex symb (emit (Construct ex) s) = (Inl (HTTPException code d), s1)"
    and "\<not> (code = 404 \<and> truthy (COINMARKETCAP_KEY env))"
  shows "fst (get_ticker_uncached env ex symb s) = Inl (HTTPException code d)"
    and "emitted s (snd (get_ticker_uncached env ex symb s))
           = [Construct ex, FetchTicker ex symb, Close ex]"
proof -
  from assms(2) adapter_get_ticker_state [of env ex symb "emit (Construct ex) s"]
  have s1: "s1 = emit (FetchTicker ex symb) (emit (Construct ex) s)"
    by simp
  show "fst (get_ticker_uncached env ex symb s) = Inl (HTTPException code d)"
    using assms by (auto simp: get_ticker_uncached_def CCXTAdapter_init_def)
  have "snd (get_ticker_uncached env ex symb s) = CCXTAdapter_close ex s1"
    using assms by (auto simp: get_ticker_uncached_def CCXTAdapter_init_def)
  then show "emitted s (snd (get_ticker_uncached env ex symb s))
           = [Construct ex, FetchTicker ex symb, Close ex]"
    using s1 by (simp add: CCXTAdapter_close_def)
qed

lemma takeWhile_colon:
  "CHR '':'' \<notin> set a \<Longrightarrow> takeWhile (\<lambda>c. c \<noteq> CHR '':'') (a @ CHR '':'' # x) = a"
  by (induction a) auto

lemma colon_split:
  assumes "CHR '':'' \<notin> set a" and "CHR '':'' \<notin> set b"
    and "a @ CHR '':'' # x = b @ CHR '':'' # y"
  shows "a = b \<and> x = y"
proof -
  have "takeWhile (\<lambda>c. c \<noteq> CHR '':'') (a @ CHR '':'' # x) = a"
    using assms(1) by (rule takeWhile_colon)
  moreover have "takeWhile (\<lambda>c. c \<noteq> CHR '':'') (b @ CHR '':'' # y) = b"
    using assms(2) by (rule takeWhile_colon)
  ultimately have "a = b"
    using assms(3) by simp
  with assms(3) show ?thesis
    by simp
qed

lemma split_on_no_sep: "c \<notin> set s \<Longrightarrow> split_on c s = [s]"
  by (induction s) auto

lemma reshape_no_slash:
  "CHR ''/'' \<notin> set symb \<Longrightarrow> reshape symb date body = Inl (not_parsed symb)"
  by (simp add: reshape_def split_on_no_sep split: option.splits)

lemma attempt_no_slash:
  "CHR ''/'' \<notin> set symb \<Longrightarrow> isl (fst (fetch_from_coinmarketcap_attempt env symb s))"
  by (simp add: fetch_from_coinmarketcap_attempt_def split_on_no_sep reshape_no_slash
      split: cmc_response.splits)

lemma retry_fails:
  assumes "\<And>s. isl (fst (f s))"
  shows "isl (fst (retry stop n f s))"
  using assms
proof (induction stop n f s rule: retry.induct)
  case (1 stop n f s)
  obtain r s' where fs: "f s = (r, s')"
    by (cases "f s")
  with "1.prems" [of s] obtain e where e: "r = Inl e"
    by (cases r) auto
  show ?case
  proof (cases "stop \<le> n")
    case True
    with fs e show ?thesis
      by (subst retry.simps) simp
  next
    case False
    have "retry stop n f s = retry stop (Suc n) f (emit (Sleep (wait_exponential n)) s')"
      using fs e False by (subst retry.simps) simp
    with "1.IH" [OF fs [symmetric] e False "1.prems"] show ?thesis
      by simp
  qed
qed




lemmas fetch_defs = DataFetcher_get_ticker_def cached_def cache_miss_def JsonSerializer_dumps_def
  get_ticker_uncached_def
  CCXTAdapter_init_def CCXTAdapter_get_ticker_def CCXTAdapter_close_def emit_def


lemma attempt_limited:
  "fetch_from_coinmarketcap_attempt limited_env ''XRP/USD'' s
     = (Inl (HTTPException 429 ''Error from CoinMarketCap: rate limited''), emit (CmcGet ''XRP'') s)"
  by (simp add: fetch_from_coinmarketcap_attempt_def limited_env_def demo_env_def)

lemma uncached_store [simp]:
  "store (snd (get_ticker_uncached env ex symb s)) = store s"
proof (cases "ex \<in> set (exchanges env)")
  case True
  from get_ticker_uncached_effect [OF True, of symb s] show ?thesis
    by blast
next
  case False
  then show ?thesis
    by (simp add: get_ticker_unknown_exchange)
qed

lemma uncached_primary_calls:
  "\<exists>evs. trace (snd (get_ticker_uncached env ex symb s)) = trace s @ evs
     \<and> primary_calls evs = (if ex \<in> set (exchanges env) then 1 else 0)"
proof (cases "ex \<in> set (exchanges env)")
  case True
  from get_ticker_uncached_effect [OF True, of symb s] obtain mid where
    mid: "trace (snd (get_ticker_uncached env ex symb s))
            = trace s @ Construct ex # FetchTicker ex symb # mid @ [Close ex]"
      "mid = [] \<or> (\<exists>evs. mid = Fallback symb # evs \<and> list_all is_secondary evs)"
    by blast
  from mid(2) have "filter is_primary_call mid = []"
    by (auto simp: secondary_not_primary)
  then have "primary_calls (Construct ex # FetchTicker ex symb # mid @ [Close ex]) = 1"
    by (simp add: primary_calls_def)
  with mid(1) True show ?thesis
    by auto
next
  case False
  then show ?thesis
    by (simp add: get_ticker_unknown_exchange primary_calls_def)
qed

lemma get_ticker_hit:
  assumes "store s (key_builder ex symb) = Some (v, expiry)" and "now < expiry"
    and "loads env v = Some t"
  shows "DataFetcher_get_ticker env now ex symb s = (Inr t, s)"
  using assms by (simp add: DataFetcher_get_ticker_def cached_def)

lemma get_ticker_stores_nothing:
  "store (snd (DataFetcher_get_ticker env now ex symb s)) = store s"
  by (auto simp: DataFetcher_get_ticker_def cached_def cache_miss_stores_nothing
      split: option.splits)

lemma get_ticker_primary_calls:
  "primary_calls (emitted s (snd (DataFetcher_get_ticker env now ex symb s))) \<le> 1"
proof -
  from uncached_primary_calls [of env ex symb s] obtain evs where
    evs: "trace (snd (get_ticker_uncached env ex symb s)) = trace s @ evs"
      "primary_calls evs \<le> 1"
    by (auto split: if_splits)
  from get_ticker_emitted [of s env now ex symb] evs show ?thesis
    by (auto simp: primary_calls_def)
qed

lemma retry_three_failures:
  assumes "\<And>s. f s = (Inl (e s), g s)"
  shows "retry 3 1 f s
    = (Inl (RetryError
         (e (emit (Sleep (wait_exponential 2)) (g (emit (Sleep (wait_exponential 1)) (g s)))))),
       g (emit (Sleep (wait_exponential 2)) (g (emit (Sleep (wait_exponential 1)) (g s)))))"
proof -
  have three: "retry 3 3 f s = (Inl (RetryError (e s)), g s)" for s
    by (subst retry.simps) (simp add: assms)
  have two: "retry 3 2 f s
      = (Inl (RetryError (e (emit (Sleep (wait_exponential 2)) (g s)))),
         g (emit (Sleep (wait_exponential 2)) (g s)))" for s
    by (subst retry.simps) (simp add: assms three)
  show ?thesis
    by (subst retry.simps) (simp add: assms two numeral_2_eq_2 [symmetric])
qed

lemma retry_first_success:
  "f s = (Inr v, s') \<Longrightarrow> retry stop n f s = (Inr v, s')"
  by (subst retry.simps) simp

lemma py_int_http_date: "py_int ''Tue, 03 Nov 2026 14:10:00 GMT'' = None"
  by (simp add: py_int_def strip_def is_space_def is_digit_def)

lemma py_int_zero: "py_int ''0'' = Some 0"
  by (simp add: py_int_def strip_def is_space_def is_digit_def digit_value_def)

lemma attempt_dated:
  "fetch_from_coinmarketcap_attempt dated_env ''XRP/USD'' s
     = (Inl (OtherError ''ValueError''), emit (CmcGet ''XRP'') s)"
  by (simp add: fetch_from_coinmarketcap_attempt_def dated_env_def demo_env_def reshape_def
      xrp_body_def py_int_http_date)

lemma attempt_undated:
  "fetch_from_coinmarketcap_attempt demo_env ''XRP/USD'' s
     = (Inr \<lparr>symbol = ''XRP/USD'', last_price = 0.52, bid = 0, ask = 0, high = 0, low = 0,
             volume = 1000000, timestamp = 0\<rparr>, emit (CmcGet ''XRP'') s)"
  by (simp add: fetch_from_coinmarketcap_attempt_def demo_env_def reshape_def
      xrp_body_def py_int_zero get_default_def)

lemma reshape_defaults:
  assumes "split_on CHR ''/'' symb = base # qc # rest"
    and "body base = Some quotes" and "quotes qc = Some q"
    and "py_int (case date of None \<Rightarrow> ''0'' | Some d \<Rightarrow> d) = Some ts"
    and "q ''price'' = Some price" and "q ''volume_24h'' = Some vol"
    and "q ''bid'' = None" and "q ''ask'' = None"
    and "q ''high_24h'' = None" and "q ''low_24h'' = None"
  shows "reshape symb date body
    = Inr \<lparr>symbol = symb, last_price = price, bid = 0, ask = 0, high = 0, low = 0,
           volume = vol, timestamp = ts\<rparr>"
  using assms by (simp add: reshape_def get_default_def)

lemma reshape_missing_key:
  assumes "split_on CHR ''/'' symb = base # qc # rest"
    and "body base = None \<or> (\<exists>quotes. body base = Some quotes \<and> quotes qc = None)"
  shows "reshape symb date body
    = Inl (HTTPException 404
        (''Could not parse CoinMarketCap response for '' @ squote symb @ ''.''))"
  using assms by (auto simp: reshape_def not_parsed_def)

lemma fallback_without_date:
  "fst (DataFetcher_get_ticker demo_env 0 ''demo-exchange'' ''XRP/USD'' init_state)
     = Inr \<lparr>symbol = ''XRP/USD'', last_price = 0.52, bid = 0, ask = 0, high = 0, low = 0,
            volume = 1000000, timestamp = 0\<rparr>"
proof -
  have k: "truthy (COINMARKETCAP_KEY demo_env)" "''demo-exchange'' \<in> set (exchanges demo_env)"
    "fetch_ticker demo_env i ''demo-exchange'' ''XRP/USD'' = Inl (BadSymbol ''no such market'')" for i
    by (simp_all add: demo_env_def)
  show ?thesis
    unfolding fetch_defs fetch_from_coinmarketcap_def
      retry_first_success [OF attempt_undated]
    by (simp add: k init_state_def)
qed

lemma split_on_nonempty: "split_on c s = hd (split_on c s) # tl (split_on c s)"
  by (induction s) (auto split: list.splits)

lemma attempt_state:
  assumes "truthy (COINMARKETCAP_KEY env)"
  shows "snd (fetch_from_coinmarketcap_attempt env symb s)
    = emit (CmcGet (hd (split_on CHR ''/'' symb))) s"
proof -
  obtain base rest where b: "split_on CHR ''/'' symb = base # rest"
    using split_on_nonempty [of "CHR ''/''" symb] by blast
  with assms show ?thesis
    by (simp add: fetch_from_coinmarketcap_attempt_def split: cmc_response.splits)
qed

lemma retry_three_states:
  assumes "\<And>s. snd (f s) = g s"
  shows "snd (retry 3 1 f s) = g s
       \<or> snd (retry 3 1 f s) = g (emit (Sleep (wait_exponential 1)) (g s))
       \<or> snd (retry 3 1 f s)
           = g (emit (Sleep (wait_exponential 2)) (g (emit (Sleep (wait_exponential 1)) (g s))))"
proof -
  have st: "f s = (fst (f s), g s)" for s
    using assms [of s] by (cases "f s") simp
  have three: "snd (retry 3 3 f s) = g s" for s
    by (subst retry.simps, subst st) (simp split: sum.splits)
  have two: "snd (retry 3 2 f s) = g s
      \<or> snd (retry 3 2 f s) = g (emit (Sleep (wait_exponential 2)) (g s))" for s
    by (subst (1 2) retry.simps, subst (1 2) st) (simp add: three split: sum.splits)
  have one: "retry 3 1 f s = (case fst (f s) of
      Inr v \<Rightarrow> (Inr v, g s)
    | Inl e \<Rightarrow> retry 3 2 f (emit (Sleep (wait_exponential 1)) (g s)))"
    by (subst retry.simps, subst st) (simp add: numeral_2_eq_2 [symmetric] split: sum.splits)
  show ?thesis
  proof (cases "fst (f s)")
    case (Inr v)
    then show ?thesis
      unfolding one by simp
  next
    case (Inl e)
    then show ?thesis
      unfolding one using two [of "emit (Sleep (wait_exponential 1)) (g s)"] by auto
  qed
qed

lemma fallback_requests:
  assumes "truthy (COINMARKETCAP_KEY env)"
  shows "\<exists>more. trace (snd (fetch_from_coinmarketcap env symb s))
             = trace s @ Fallback symb # CmcGet (hd (split_on CHR ''/'' symb)) # more
           \<and> fallback_calls more = 0 \<and> cmc_attempts more \<le> 2"
  using retry_three_states [of "fetch_from_coinmarketcap_attempt env symb"
      "emit (CmcGet (hd (split_on CHR ''/'' symb)))" "emit (Fallback symb) s",
      OF attempt_state [OF assms]]
  by (auto simp: fetch_from_coinmarketcap_def fallback_calls_def cmc_attempts_def)

lemma fallback_first_answer:
  assumes "truthy (COINMARKETCAP_KEY env)"
    and "cmc_get env (Suc (length (trace s))) (hd (split_on CHR ''/'' symb)) = Success date body"
    and "reshape symb date body = Inr t"
  shows "fetch_from_coinmarketcap env symb s
    = (Inr t, emit (CmcGet (hd (split_on CHR ''/'' symb))) (emit (Fallback symb) s))"
proof -
  obtain base rest where b: "split_on CHR ''/'' symb = base # rest"
    using split_on_nonempty [of "CHR ''/''" symb] by blast
  have "fetch_from_coinmarketcap_attempt env symb (emit (Fallback symb) s)
      = (Inr t, emit (CmcGet (hd (split_on CHR ''/'' symb))) (emit (Fallback symb) s))"
    using assms b by (simp add: fetch_from_coinmarketcap_attempt_def)
  then show ?thesis
    unfolding fetch_from_coinmarketcap_def by (rule retry_first_success)
qed

lemma uncached_fallback_events:
  assumes "ex \<in> set (exchanges env)"
    and "CCXTAdapter_get_ticker env ex symb (emit (Construct ex) s) = (Inl (HTTPException 404 d), s1)"
    and "truthy (COINMARKETCAP_KEY env)"
  shows "\<exists>more. emitted s (snd (get_ticker_uncached env ex symb s))
             = Construct ex # FetchTicker ex symb # Fallback symb
                 # CmcGet (hd (split_on CHR ''/'' symb)) # more @ [Close ex]
           \<and> fallback_calls more = 0 \<and> cmc_attempts more \<le> 2"
proof -
  from assms(2) adapter_get_ticker_state [of env ex symb "emit (Construct ex) s"]
  have s1: "s1 = emit (FetchTicker ex symb) (emit (Construct ex) s)"
    by simp
  from fallback_requests [OF assms(3), of symb s1] obtain more where
    more: "trace (snd (fetch_from_coinmarketcap env symb s1))
             = trace s1 @ Fallback symb # CmcGet (hd (split_on CHR ''/'' symb)) # more"
      "fallback_calls more = 0" "cmc_attempts more \<le> 2"
    by blast
  have "snd (get_ticker_uncached env ex symb s)
      = CCXTAdapter_close ex (snd (fetch_from_coinmarketcap env symb s1))"
    using assms by (simp add: get_ticker_uncached_def CCXTAdapter_init_def split: prod.splits)
  then have "emitted s (snd (get_ticker_uncached env ex symb s))
      = Construct ex # FetchTicker ex symb # Fallback symb
          # CmcGet (hd (split_on CHR ''/'' symb)) # more @ [Close ex]"
    using more(1) s1 by (simp add: CCXTAdapter_close_def)
  with more(2,3) show ?thesis
    by blast
qed

lemma reshape_xrp:
  "reshape ''XRP/USD'' None xrp_body
     = Inr \<lparr>symbol = ''XRP/USD'', last_price = 0.52, bid = 0, ask = 0, high = 0, low = 0,
            volume = 1000000, timestamp = 0\<rparr>"
  by (simp add: reshape_def xrp_body_def py_int_zero get_default_def)

lemma init_state_miss: "\<not> cache_hit env key now init_state"
  by (simp add: cache_hit_def init_state_def)

lemma demo_adapter_unknown_symbol:
  "CCXTAdapter_get_ticker demo_env ''demo-exchange'' ''XRP/USD'' s
     = (Inl (HTTPException 404 (''Symbol '' @ squote ''XRP/USD'' @ '' not found on demo-exchange'')),
        emit (FetchTicker ''demo-exchange'' ''XRP/USD'') s)"
  by (simp add: CCXTAdapter_get_ticker_def demo_env_def)

lemma demo_adapter_down:
  "CCXTAdapter_get_ticker demo_env ''demo-exchange'' ''DOWN/USD'' s
     = (Inl (HTTPException 503 ''Network error connecting to demo-exchange''),
        emit (FetchTicker ''demo-exchange'' ''DOWN/USD'') s)"
  by (simp add: CCXTAdapter_get_ticker_def demo_env_def)

section \<open>The cache in front of the ticker fetch\<close>

text \<open>
  C1. The claim: two ticker fetches for the same exchange and symbol within the 10-second
  window call the exchange at most once, the second being answered from the cache. In the
  code no fetch stores anything (\<open>get_ticker_stores_nothing\<close>): the cache writes through
  \<open>JsonSerializer\<close>, \<open>json.dumps\<close> raises \<open>TypeError\<close> for the Ticker object, and the
  decorator drops that exception. So a second fetch, 5 seconds after a first one that
  returned the Ticker, finds no entry and calls the exchange again: two calls.
\<close>

theorem second_fetch_calls_exchange_again:
  "(0::real) \<le> 5 \<and> (5::real) < 0 + 10
   \<and> fst (DataFetcher_get_ticker demo_env 0 ''demo-exchange'' ''BTC/USDT'' init_state)
       = Inr \<lparr>symbol = ''BTC/USDT'', last_price = 50000, bid = 49999, ask = 50001,
              high = 51000, low = 49000, volume = 50500, timestamp = 1672531200000\<rparr>
   \<and> store (snd (DataFetcher_get_ticker demo_env 0 ''demo-exchange'' ''BTC/USDT'' init_state))
         (key_builder ''demo-exchange'' ''BTC/USDT'') = None
   \<and> primary_calls (trace (snd (DataFetcher_get_ticker demo_env 5 ''demo-exchange'' ''BTC/USDT''
        (snd (DataFetcher_get_ticker demo_env 0 ''demo-exchange'' ''BTC/USDT'' init_state))))) = 2"
  by (simp add: fetch_defs demo_env_def demo_ticker_data_def init_state_def key_builder_def
      primary_calls_def)

section \<open>Fallback gating\<close>

text \<open>
  C2, as the claim states it, fails for the not-found error of an unknown provider: the
  adapter is constructed before the \<open>try\<close>, so its 404 meets no handler, and with a key
  configured the fetch raises it without entering the fallback routine or calling the
  secondary provider.
\<close>

theorem fallback_gating_counterexample:
  "truthy (COINMARKETCAP_KEY demo_env)
   \<and> fst (DataFetcher_get_ticker demo_env 0 ''nowhere'' ''XRP/USD'' init_state)
       = Inl (HTTPException 404 (''Exchange '' @ squote ''nowhere'' @ '' not found.''))
   \<and> fallback_calls (emitted init_state
         (snd (DataFetcher_get_ticker demo_env 0 ''nowhere'' ''XRP/USD'' init_state))) = 0
   \<and> cmc_attempts (emitted init_state
         (snd (DataFetcher_get_ticker demo_env 0 ''nowhere'' ''XRP/USD'' init_state))) = 0"
  by (simp add: fetch_defs demo_env_def init_state_def key_builder_def fallback_calls_def
      cmc_attempts_def emitted_def)

text \<open>
  C2, amended. Take a single-ticker fetch that is not answered from the cache. For an
  unknown exchange it raises the constructor's 404 and does nothing else. For a known
  exchange whose ticker call raises \<open>HTTPException code d\<close> (the adapter raises nothing
  else): if the code is 404 and a key is configured, the fallback routine is entered
  exactly once, right after the ticker call, its first step is a request to the secondary
  provider for the base currency of the symbol, it sends at least one and at most three
  requests (the retry wrapper, C3), and its outcome is the outcome of the fetch; when the
  first request is answered and the answer re-shapes to a Ticker, that Ticker is returned
  after exactly one request. If the code is 404 and no key is configured, the same
  exception (404, same detail) is the outcome, the fallback routine is not entered and the
  secondary provider is not called. For every other code the same exception is the
  outcome, again with no fallback and no call of the secondary provider.
\<close>

theorem fallback_gating:
  assumes "\<not> cache_hit env (key_builder ex symb) now s"
  shows "(ex \<notin> set (exchanges env) \<longrightarrow>
            DataFetcher_get_ticker env now ex symb s
              = (Inl (HTTPException 404 (''Exchange '' @ squote ex @ '' not found.'')), s))
       \<and> (ex \<in> set (exchanges env)
            \<and> CCXTAdapter_get_ticker env ex symb (emit (Construct ex) s)
                = (Inl (HTTPException code d), s1) \<longrightarrow>
          (code = 404 \<and> truthy (COINMARKETCAP_KEY env) \<longrightarrow>
             fst (DataFetcher_get_ticker env now ex symb s)
               = fst (fetch_from_coinmarketcap env symb s1)
             \<and> take 4 (emitted s (snd (DataFetcher_get_ticker env now ex symb s)))
                 = [Construct ex, FetchTicker ex symb, Fallback symb,
                    CmcGet (hd (split_on CHR ''/'' symb))]
             \<and> fallback_calls (emitted s (snd (DataFetcher_get_ticker env now ex symb s))) = 1
             \<and> 1 \<le> cmc_attempts (emitted s (snd (DataFetcher_get_ticker env now ex symb s)))
             \<and> cmc_attempts (emitted s (snd (DataFetcher_get_ticker env now ex symb s))) \<le> 3
             \<and> (cmc_get env (Suc (length (trace s1))) (hd (split_on CHR ''/'' symb))
                   = Success date body
                 \<and> reshape symb date body = Inr t \<longrightarrow>
                 fst (DataFetcher_get_ticker env now ex symb s) = Inr t
                 \<and> cmc_attempts (emitted s (snd (DataFetcher_get_ticker env now ex symb s))) = 1))
          \<and> (code = 404 \<and> \<not> truthy (COINMARKETCAP_KEY env) \<longrightarrow>
               fst (DataFetcher_get_ticker env now ex symb s) = Inl (HTTPException 404 d)
               \<and> fallback_calls (emitted s (snd (DataFetcher_get_ticker env now ex symb s))) = 0
               \<and> cmc_attempts (emitted s (snd (DataFetcher_get_ticker env now ex symb s))) = 0)
          \<and> (code \<noteq> 404 \<longrightarrow>
               fst (DataFetcher_get_ticker env now ex symb s) = Inl (HTTPException code d)
               \<and> fallback_calls (emitted s (snd (DataFetcher_get_ticker env now ex symb s))) = 0
               \<and> cmc_attempts (emitted s (snd (DataFetcher_get_ticker env now ex symb s))) = 0))"
proof -
  note miss = get_ticker_miss [OF assms]
  have unknown: "ex \<notin> set (exchanges env) \<longrightarrow>
      DataFetcher_get_ticker env now ex symb s
        = (Inl (HTTPException 404 (''Exchange '' @ squote ex @ '' not found.'')), s)"
    by (simp add: miss get_ticker_unknown_exchange)
  have known: ?thesis
    if ex: "ex \<in> set (exchanges env)"
      and a: "CCXTAdapter_get_ticker env ex symb (emit (Construct ex) s)
                = (Inl (HTTPException code d), s1)"
  proof (cases "code = 404 \<and> truthy (COINMARKETCAP_KEY env)")
    case True
    then have c: "code = 404" and k: "truthy (COINMARKETCAP_KEY env)"
      by simp_all
    note a' = a [unfolded c]
    from a adapter_get_ticker_state [of env ex symb "emit (Construct ex) s"]
    have s1: "s1 = emit (FetchTicker ex symb) (emit (Construct ex) s)"
      by simp
    from uncached_fallback_events [OF ex a' k] obtain more where
      ev: "emitted s (snd (get_ticker_uncached env ex symb s))
             = Construct ex # FetchTicker ex symb # Fallback symb
                 # CmcGet (hd (split_on CHR ''/'' symb)) # more @ [Close ex]"
        and more: "fallback_calls more = 0" "cmc_attempts more \<le> 2"
      by blast
    have r: "fst (get_ticker_uncached env ex symb s) = fst (fetch_from_coinmarketcap env symb s1)"
      by (rule uncached_404_with_key(1) [OF ex a' k])
    have counts: "fallback_calls (emitted s (snd (get_ticker_uncached env ex symb s))) = 1"
      "cmc_attempts (emitted s (snd (get_ticker_uncached env ex symb s)))
         = Suc (cmc_attempts more)"
      using more by (simp_all add: ev fallback_calls_def cmc_attempts_def)
    have first: "fst (get_ticker_uncached env ex symb s) = Inr t
        \<and> cmc_attempts (emitted s (snd (get_ticker_uncached env ex symb s))) = 1"
      if g: "cmc_get env (Suc (length (trace s1))) (hd (split_on CHR ''/'' symb))
               = Success date body"
        and sh: "reshape symb date body = Inr t"
    proof -
      note f = fallback_first_answer [OF k g sh]
      have "get_ticker_uncached env ex symb s
          = (Inr t, CCXTAdapter_close ex
               (emit (CmcGet (hd (split_on CHR ''/'' symb))) (emit (Fallback symb) s1)))"
        using ex a' k f by (simp add: get_ticker_uncached_def CCXTAdapter_init_def)
      then show ?thesis
        using s1 by (simp add: CCXTAdapter_close_def emitted_def cmc_attempts_def)
    qed
    from True unknown ex r ev counts more first show ?thesis
      by (simp add: miss)
  next
    case False
    from uncached_no_fallback [OF ex a False] False unknown ex show ?thesis
      by (auto simp: miss fallback_calls_def cmc_attempts_def)
  qed
  show ?thesis
  proof (cases "ex \<in> set (exchanges env)
      \<and> CCXTAdapter_get_ticker env ex symb (emit (Construct ex) s)
          = (Inl (HTTPException code d), s1)")
    case True
    then show ?thesis
      using known by blast
  next
    case False
    with unknown show ?thesis
      by blast
  qed
qed

theorem fallback_gating_witness:
  "\<not> cache_hit demo_env (key_builder ''demo-exchange'' ''XRP/USD'') 0 init_state
   \<and> ''demo-exchange'' \<in> set (exchanges demo_env) \<and> ''nowhere'' \<notin> set (exchanges demo_env)
   \<and> truthy (COINMARKETCAP_KEY demo_env) \<and> \<not> truthy (COINMARKETCAP_KEY no_key_env)
   \<and> fst (DataFetcher_get_ticker demo_env 0 ''demo-exchange'' ''XRP/USD'' init_state)
       = Inr \<lparr>symbol = ''XRP/USD'', last_price = 0.52, bid = 0, ask = 0, high = 0, low = 0,
              volume = 1000000, timestamp = 0\<rparr>
   \<and> take 4 (emitted init_state
         (snd (DataFetcher_get_ticker demo_env 0 ''demo-exchange'' ''XRP/USD'' init_state)))
       = [Construct ''demo-exchange'', FetchTicker ''demo-exchange'' ''XRP/USD'',
          Fallback ''XRP/USD'', CmcGet ''XRP'']
   \<and> fallback_calls (emitted init_state
         (snd (DataFetcher_get_ticker demo_env 0 ''demo-exchange'' ''XRP/USD'' init_state))) = 1
   \<and> cmc_attempts (emitted init_state
         (snd (DataFetcher_get_ticker demo_env 0 ''demo-exchange'' ''XRP/USD'' init_state))) = 1
   \<and> fst (DataFetcher_get_ticker no_key_env 0 ''demo-exchange'' ''XRP/USD'' init_state)
       = Inl (HTTPException 404 (''Symbol '' @ squote ''XRP/USD'' @ '' not found on demo-exchange''))
   \<and> cmc_attempts (emitted init_state
         (snd (DataFetcher_get_ticker no_key_env 0 ''demo-exchange'' ''XRP/USD'' init_state))) = 0
   \<and> fst (DataFetcher_get_ticker demo_env 0 ''demo-exchange'' ''DOWN/USD'' init_state)
       = Inl (HTTPException 503 ''Network error connecting to demo-exchange'')
   \<and> cmc_attempts (emitted init_state
         (snd (DataFetcher_get_ticker demo_env 0 ''demo-exchange'' ''DOWN/USD'' init_state))) = 0
   \<and> DataFetcher_get_ticker demo_env 0 ''nowhere'' ''XRP/USD'' init_state
       = (Inl (HTTPException 404 (''Exchange '' @ squote ''nowhere'' @ '' not found.'')),
          init_state)"
proof -
  have known: "''demo-exchange'' \<in> set (exchanges demo_env)"
    "''demo-exchange'' \<in> set (exchanges no_key_env)"
    "''nowhere'' \<notin> set (exchanges demo_env)"
    by (simp_all add: demo_env_def no_key_env_def)
  have k: "truthy (COINMARKETCAP_KEY demo_env)" "\<not> truthy (COINMARKETCAP_KEY no_key_env)"
    by (simp_all add: demo_env_def no_key_env_def)
  have b: "CCXTAdapter_get_ticker no_key_env ''demo-exchange'' ''XRP/USD''
        (emit (Construct ''demo-exchange'') init_state)
      = (Inl (HTTPException 404 (''Symbol '' @ squote ''XRP/USD'' @ '' not found on demo-exchange'')),
         emit (FetchTicker ''demo-exchange'' ''XRP/USD'')
           (emit (Construct ''demo-exchange'') init_state))"
    by (simp add: CCXTAdapter_get_ticker_def demo_env_def no_key_env_def)
  have g: "cmc_get demo_env n (hd (split_on CHR ''/'' ''XRP/USD'')) = Success None xrp_body" for n
    by (simp add: demo_env_def)
  have h: "hd (split_on CHR ''/'' ''XRP/USD'') = ''XRP''"
    by simp
  note w1 = fallback_gating [where env = demo_env and ex = "''demo-exchange''"
      and symb = "''XRP/USD''" and now = 0 and s = init_state and code = 404
      and date = None and body = xrp_body, OF init_state_miss, unfolded h]
  note w2 = fallback_gating [where env = no_key_env and ex = "''demo-exchange''"
      and symb = "''XRP/USD''" and now = 0 and s = init_state and code = 404,
      OF init_state_miss]
  note w3 = fallback_gating [where env = demo_env and ex = "''demo-exchange''"
      and symb = "''DOWN/USD''" and now = 0 and s = init_state and code = 503,
      OF init_state_miss]
  note w4 = fallback_gating [where env = demo_env and ex = "''nowhere''"
      and symb = "''XRP/USD''" and now = 0 and s = init_state, OF init_state_miss]
  from w1 known k demo_adapter_unknown_symbol g [unfolded h] reshape_xrp
  have a1: "fst (DataFetcher_get_ticker demo_env 0 ''demo-exchange'' ''XRP/USD'' init_state)
       = Inr \<lparr>symbol = ''XRP/USD'', last_price = 0.52, bid = 0, ask = 0, high = 0, low = 0,
              volume = 1000000, timestamp = 0\<rparr>
   \<and> take 4 (emitted init_state
         (snd (DataFetcher_get_ticker demo_env 0 ''demo-exchange'' ''XRP/USD'' init_state)))
       = [Construct ''demo-exchange'', FetchTicker ''demo-exchange'' ''XRP/USD'',
          Fallback ''XRP/USD'', CmcGet ''XRP'']
   \<and> fallback_calls (emitted init_state
         (snd (DataFetcher_get_ticker demo_env 0 ''demo-exchange'' ''XRP/USD'' init_state))) = 1
   \<and> cmc_attempts (emitted init_state
         (snd (DataFetcher_get_ticker demo_env 0 ''demo-exchange'' ''XRP/USD'' init_state))) = 1"
    by blast
  from w2 known k b
  have a2: "fst (DataFetcher_get_ticker no_key_env 0 ''demo-exchange'' ''XRP/USD'' init_state)
       = Inl (HTTPException 404 (''Symbol '' @ squote ''XRP/USD'' @ '' not found on demo-exchange''))
   \<and> cmc_attempts (emitted init_state
         (snd (DataFetcher_get_ticker no_key_env 0 ''demo-exchange'' ''XRP/USD'' init_state))) = 0"
    by blast
  from w3 known demo_adapter_down
  have a3: "fst (DataFetcher_get_ticker demo_env 0 ''demo-exchange'' ''DOWN/USD'' init_state)
       = Inl (HTTPException 503 ''Network error connecting to demo-exchange'')
   \<and> cmc_attempts (emitted init_state
         (snd (DataFetcher_get_ticker demo_env 0 ''demo-exchange'' ''DOWN/USD'' init_state))) = 0"
    by simp
  from w4 known
  have a4: "DataFetcher_get_ticker demo_env 0 ''nowhere'' ''XRP/USD'' init_state
       = (Inl (HTTPException 404 (''Exchange '' @ squote ''nowhere'' @ '' not found.'')),
          init_state)"
    by blast
  from a1 a2 a3 a4 known k init_state_miss show ?thesis
    by blast
qed

section \<open>The retry wrapper\<close>

text \<open>
  C3. The claim: the wrapper retries on any exception, a call that fails on every attempt
  is attempted exactly three times, and then the last failure itself propagates. The first
  two hold (\<open>retry_three_failures\<close>, for any operation that fails every time); the third
  does not. With a secondary provider that answers every request with status 429, the
  fallback routine calls it three times, and what it then raises is \<open>RetryError\<close> around
  the last attempt's \<open>HTTPException\<close>, not that exception.
\<close>

theorem retry_wraps_last_failure:
  "fst (fetch_from_coinmarketcap limited_env ''XRP/USD'' init_state)
     = Inl (RetryError (HTTPException 429 ''Error from CoinMarketCap: rate limited''))
   \<and> cmc_attempts (trace (snd (fetch_from_coinmarketcap limited_env ''XRP/USD'' init_state))) = 3"
proof -
  let ?f = "fetch_from_coinmarketcap_attempt limited_env ''XRP/USD''"
  let ?e = "\<lambda>s::state. HTTPException 429 ''Error from CoinMarketCap: rate limited''"
  note run = retry_three_failures [of ?f ?e, OF attempt_limited]
  show ?thesis
    unfolding fetch_from_coinmarketcap_def run
    by (simp add: cmc_attempts_def emit_def init_state_def)
qed

section \<open>The batch fetch\<close>



section \<open>Re-shaping the secondary provider's answer\<close>

text \<open>
  C5. The claim: fields the secondary provider does not send (bid, ask, high, low) default
  to 0, a missing base or quote currency key gives 404, and in the scenario (the exchange
  reports \<open>XRP/USD\<close> as unknown, a key is configured, the secondary data has price 0.52)
  the fetch returns a Ticker with last 0.52, bid 0 and ask 0. The defaults and the 404
  hold in the re-shaping (\<open>reshape_defaults\<close>, \<open>reshape_missing_key\<close>), and the scenario
  holds for an answer without a \<open>Date\<close> header (\<open>fallback_without_date\<close>). It fails
  for an answer that carries one: the timestamp of the Ticker is \<open>int\<close> of that header,
  the \<open>ValueError\<close> for \<open>Tue, 03 Nov 2026 14:10:00 GMT\<close> meets no handler, each of the
  three attempts raises it, and the fetch raises instead of returning the Ticker.
\<close>

theorem fallback_fails_on_http_date:
  "fst (DataFetcher_get_ticker dated_env 0 ''demo-exchange'' ''XRP/USD'' init_state)
     = Inl (RetryError (OtherError ''ValueError''))"
proof -
  have k: "truthy (COINMARKETCAP_KEY dated_env)" "''demo-exchange'' \<in> set (exchanges dated_env)"
    "fetch_ticker dated_env i ''demo-exchange'' ''XRP/USD'' = Inl (BadSymbol ''no such market'')" for i
    by (simp_all add: dated_env_def demo_env_def)
  show ?thesis
    unfolding fetch_defs fetch_from_coinmarketcap_def
      retry_three_failures [of "fetch_from_coinmarketcap_attempt dated_env ''XRP/USD''"
        "\<lambda>s. OtherError ''ValueError''", OF attempt_dated]
    by (simp add: k init_state_def)
qed

section \<open>Error classification of the historical fetch\<close>

text \<open>
  C6, as the claim states it, fails: for a symbol the exchange does not know, the ticker
  call of the adapter raises 404, but its historical call raises 500, since its only
  handler catches every exception alike. The environment \<open>demo_env\<close> reports
  \<open>XRP/USD\<close> as a bad symbol to both calls.
\<close>

theorem historical_classification_counterexample:
  "fst (CCXTAdapter_get_ticker demo_env ''demo-exchange'' ''XRP/USD'' init_state)
     = Inl (HTTPException 404 (''Symbol '' @ squote ''XRP/USD'' @ '' not found on demo-exchange''))
   \<and> fst (CCXTAdapter_get_historical_data demo_env ''demo-exchange'' ''XRP/USD'' ''1h'' 0 100
         init_state)
     = Inl (HTTPException 500 ''Failed to fetch historical data: no such market'')"
  by (simp add: CCXTAdapter_get_ticker_def CCXTAdapter_get_historical_data_def demo_env_def)

text \<open>
  C6, amended. Without the historical capability the adapter raises 501 and leaves the
  state as it was: the exchange is not called. With the capability, every exception of the
  exchange's call, whatever its class, becomes 500 with the detail
  \<open>Failed to fetch historical data: ...\<close>, and an answer becomes the list of its rows.
\<close>

theorem historical_classification:
  "(\<not> has_fetchOHLCV env ex \<longrightarrow>
      CCXTAdapter_get_historical_data env ex symb tf since limit s
        = (Inl (HTTPException 501
             (''Exchange '' @ squote ex @ '' does not support fetching OHLCV data.'')), s))
   \<and> (has_fetchOHLCV env ex
        \<and> fetch_ohlcv env (length (trace s)) ex symb tf since limit = Inl e \<longrightarrow>
      fst (CCXTAdapter_get_historical_data env ex symb tf since limit s)
        = Inl (HTTPException 500 (''Failed to fetch historical data: '' @ message e)))
   \<and> (has_fetchOHLCV env ex
        \<and> fetch_ohlcv env (length (trace s)) ex symb tf since limit = Inr rows \<longrightarrow>
      fst (CCXTAdapter_get_historical_data env ex symb tf since limit s)
        = Inr (map to_ohlcv rows))"
  by (simp add: CCXTAdapter_get_historical_data_def)

theorem historical_classification_witness:
  "\<not> has_fetchOHLCV no_ohlcv_env ''demo-exchange''
   \<and> CCXTAdapter_get_historical_data no_ohlcv_env ''demo-exchange'' ''BTC/USDT'' ''1h'' 0 100
        init_state
      = (Inl (HTTPException 501
           (''Exchange '' @ squote ''demo-exchange'' @ '' does not support fetching OHLCV data.'')),
         init_state)
   \<and> has_fetchOHLCV demo_env ''demo-exchange''
   \<and> fetch_ohlcv demo_env (length (trace init_state)) ''demo-exchange'' ''XRP/USD'' ''1h'' 0 100
        = Inl (BadSymbol ''no such market'')
   \<and> fst (CCXTAdapter_get_historical_data demo_env ''demo-exchange'' ''XRP/USD'' ''1h'' 0 100
        init_state)
      = Inl (HTTPException 500 (''Failed to fetch historical data: ''
           @ message (BadSymbol ''no such market'')))
   \<and> fetch_ohlcv demo_env (length (trace init_state)) ''demo-exchange'' ''BTC/USDT'' ''1h'' 0 100
        = Inr [(0, 1, 2, 0.5, 1.5, 10)]
   \<and> fst (CCXTAdapter_get_historical_data demo_env ''demo-exchange'' ''BTC/USDT'' ''1h'' 0 100
        init_state)
      = Inr (map to_ohlcv [(0, 1, 2, 0.5, 1.5, 10)])"
proof -
  have a: "\<not> has_fetchOHLCV no_ohlcv_env ''demo-exchange''"
    by (simp add: no_ohlcv_env_def demo_env_def)
  have b: "has_fetchOHLCV demo_env ''demo-exchange''"
    by (simp add: demo_env_def)
  have c: "fetch_ohlcv demo_env (length (trace init_state)) ''demo-exchange'' ''XRP/USD'' ''1h'' 0 100
        = Inl (BadSymbol ''no such market'')"
    by (simp add: demo_env_def)
  have d: "fetch_ohlcv demo_env (length (trace init_state)) ''demo-exchange'' ''BTC/USDT'' ''1h'' 0 100
        = Inr [(0, 1, 2, 0.5, 1.5, 10)]"
    by (simp add: demo_env_def)
  from a b c d
    historical_classification [of no_ohlcv_env "''demo-exchange''" "''BTC/USDT''" "''1h''" 0 100
      init_state]
    historical_classification [of demo_env "''demo-exchange''" "''XRP/USD''" "''1h''" 0 100
      init_state "BadSymbol ''no such market''"]
    historical_classification [of demo_env "''demo-exchange''" "''BTC/USDT''" "''1h''" 0 100
      init_state _ "[(0, 1, 2, 0.5, 1.5, 10)]"]
  show ?thesis
    by simp
qed

section \<open>Lifetime of the adapter\<close>

text \<open>
  C7. Every fetch operation (the ticker fetch with and without the cache in front, the
  historical fetch, the order-book fetch) closes the adapter it constructed exactly once,
  as the last thing it does, on every path: success, an error of the upstream call, and
  the fallback. No events at all happen only when no adapter was constructed (for the
  operations without the cache: exactly when the exchange is unknown).
\<close>

theorem adapter_closed_exactly_once:
  "released_once ex (emitted s (snd (get_ticker_uncached env ex symb s)))
   \<and> released_once ex (emitted s (snd (DataFetcher_get_ticker env now ex symb s)))
   \<and> released_once ex
        (emitted s (snd (DataFetcher_get_historical_data env ex symb tf since limit s)))
   \<and> released_once ex (emitted s (snd (DataFetcher_get_order_book env ex symb depth s)))
   \<and> (emitted s (snd (get_ticker_uncached env ex symb s)) = []) = (ex \<notin> set (exchanges env))
   \<and> (emitted s (snd (DataFetcher_get_historical_data env ex symb tf since limit s)) = [])
       = (ex \<notin> set (exchanges env))
   \<and> (emitted s (snd (DataFetcher_get_order_book env ex symb depth s)) = [])
       = (ex \<notin> set (exchanges env))"
proof -
  have a: "released_once ex (emitted s (snd (get_ticker_uncached env ex symb s)))"
    by (rule get_ticker_uncached_released)
  have b: "released_once ex (emitted s (snd (DataFetcher_get_ticker env now ex symb s)))"
    using get_ticker_emitted [of s env now ex symb] a
    by (auto simp: released_once_def)
  have c: "released_once ex
      (emitted s (snd (DataFetcher_get_historical_data env ex symb tf since limit s)))"
    by (simp add: historical_emitted released_once_def)
  have d: "released_once ex (emitted s (snd (DataFetcher_get_order_book env ex symb depth s)))"
    by (simp add: order_book_emitted released_once_def)
  have e: "(emitted s (snd (DataFetcher_get_historical_data env ex symb tf since limit s)) = [])
       = (ex \<notin> set (exchanges env))"
    by (simp add: historical_emitted)
  have f: "(emitted s (snd (DataFetcher_get_order_book env ex symb depth s)) = [])
       = (ex \<notin> set (exchanges env))"
    by (simp add: order_book_emitted)
  from a b c d e f get_ticker_uncached_emitted_empty [of s env ex symb] show ?thesis
    by blast
qed

section \<open>The cache key\<close>

text \<open>
  C8, as the claim states it, fails in the direction from equal keys to equal requests:
  the parts are joined by colons and may contain colons themselves. The exchange
  \<open>binance:BTC/USDT\<close> with the symbol \<open>USDT\<close> has the key of the exchange
  \<open>binance\<close> with the symbol \<open>BTC/USDT:USDT\<close>.
\<close>

theorem fingerprint_injective_counterexample:
  "key_builder ''binance:BTC/USDT'' ''USDT'' = key_builder ''binance'' ''BTC/USDT:USDT''
   \<and> (''binance:BTC/USDT'', ''USDT'') \<noteq> (''binance'', ''BTC/USDT:USDT'')"
  by (simp add: key_builder_def)

text \<open>
  C8, amended. The key of a ticker request is \<open>ticker:\<close>, the exchange, a colon and the
  symbol, both verbatim. Two requests whose exchange identifiers contain no colon have the
  same key if and only if they have the same exchange and the same symbol.
\<close>

theorem fingerprint_format:
  "key_builder ex symb = ''ticker:'' @ ex @ '':'' @ symb
   \<and> (CHR '':'' \<notin> set ex1 \<and> CHR '':'' \<notin> set ex2 \<longrightarrow>
        (key_builder ex1 symb1 = key_builder ex2 symb2) = (ex1 = ex2 \<and> symb1 = symb2))"
  using colon_split [of ex1 ex2 symb1 symb2]
  by (auto simp: key_builder_def)

theorem fingerprint_format_witness:
  "CHR '':'' \<notin> set ''binance'' \<and> CHR '':'' \<notin> set ''kraken''
   \<and> key_builder ''binance'' ''BTC/USDT:USDT'' = ''ticker:binance:BTC/USDT:USDT''
   \<and> (key_builder ''binance'' ''BTC/USDT:USDT'' = key_builder ''kraken'' ''BTC/USDT:USDT'')
       = (''binance'' = ''kraken'' \<and> ''BTC/USDT:USDT'' = ''BTC/USDT:USDT'')"
  using fingerprint_format [of "''binance''" "''BTC/USDT:USDT''" "''binance''" "''kraken''"
      "''BTC/USDT:USDT''" "''BTC/USDT:USDT''"]
  by (simp add: key_builder_def)

section \<open>Symbols without a separator\<close>

text \<open>
  C10. For a symbol that contains no \<open>/\<close>, the re-shaping of any answer of the secondary
  provider raises 404 with the detail \<open>Could not parse CoinMarketCap response for ...\<close>
  (the split has no second part, and both the missing key and the missing index meet the
  same handler); so does an attempt whose request was answered. No attempt returns a
  Ticker, and neither does the retried fallback routine.
\<close>

theorem no_separator_no_fallback:
  assumes "CHR ''/'' \<notin> set symb"
  shows "reshape symb date body
           = Inl (HTTPException 404
               (''Could not parse CoinMarketCap response for '' @ squote symb @ ''.''))
       \<and> (truthy (COINMARKETCAP_KEY env)
            \<and> cmc_get env (length (trace s)) symb = Success date body \<longrightarrow>
          fst (fetch_from_coinmarketcap_attempt env symb s)
            = Inl (HTTPException 404
                (''Could not parse CoinMarketCap response for '' @ squote symb @ ''.'')))
       \<and> isl (fst (fetch_from_coinmarketcap_attempt env symb s))
       \<and> isl (fst (fetch_from_coinmarketcap env symb s))"
proof -
  have a: "reshape symb date body
      = Inl (HTTPException 404
          (''Could not parse CoinMarketCap response for '' @ squote symb @ ''.''))"
    using reshape_no_slash [OF assms] by (simp add: not_parsed_def)
  have b: "truthy (COINMARKETCAP_KEY env)
      \<and> cmc_get env (length (trace s)) symb = Success date body \<longrightarrow>
    fst (fetch_from_coinmarketcap_attempt env symb s)
      = Inl (HTTPException 404
          (''Could not parse CoinMarketCap response for '' @ squote symb @ ''.''))"
    using a assms by (simp add: fetch_from_coinmarketcap_attempt_def split_on_no_sep)
  have c: "isl (fst (fetch_from_coinmarketcap env symb s))"
    unfolding fetch_from_coinmarketcap_def
    by (rule retry_fails) (rule attempt_no_slash [OF assms])
  from a b c attempt_no_slash [OF assms] show ?thesis
    by blast
qed

theorem no_separator_no_fallback_witness:
  "CHR ''/'' \<notin> set ''XRP''
   \<and> truthy (COINMARKETCAP_KEY demo_env)
   \<and> cmc_get demo_env (length (trace init_state)) ''XRP'' = Success None xrp_body
   \<and> fst (fetch_from_coinmarketcap_attempt demo_env ''XRP'' init_state)
       = Inl (HTTPException 404
           (''Could not parse CoinMarketCap response for '' @ squote ''XRP'' @ ''.''))
   \<and> isl (fst (fetch_from_coinmarketcap demo_env ''XRP'' init_state))"
proof -
  have a: "CHR ''/'' \<notin> set ''XRP''"
    by simp
  have b: "truthy (COINMARKETCAP_KEY demo_env)"
    "cmc_get demo_env (length (trace init_state)) ''XRP'' = Success None xrp_body"
    by (simp_all add: demo_env_def)
  from no_separator_no_fallback [OF a, of None xrp_body demo_env init_state] a b
  show ?thesis
    by simp
qed

section \<open>Fetching again within the time to live\<close>


end
